theory Spec2Isabelle
  imports Complex_Main "HOL-Library.Log_Nat"
begin

section \<open>Values, readings and alerts\<close>

text \<open>
  The analyzer receives readings as a Python dict. A key may be absent (\<open>None\<close> below), and a
  present value is either a number or something that supports neither \<open><\<close> against a number
  nor \<open>+\<close> (Python \<open>None\<close>, a string): comparing or adding such a value raises TypeError.
  A number is the real value of a Python int or float; arithmetic on numbers rounds as IEEE
  doubles do (next section). Instants (\<open>datetime.now()\<close>) are seconds on the real line, so that
  \<open>(a - b).total_seconds()\<close> is \<open>a - b\<close>.
\<close>

datatype pyval = Num real | NonNum

datatype error = TypeError | ValueError | TransportError

type_synonym datetime = real

record readings =
  heart_rate :: "pyval option"
  spo2 :: "pyval option"
  temperature :: "pyval option"
  temperature_unit :: "string option"

datatype alert_type =
  HeartRate | Spo2 | Temperature | HeartRateTrend | Spo2Trend | TemperatureTrend | SystemError

datatype severity = Info | Warning | Critical

fun type_str :: "alert_type \<Rightarrow> string" where
  "type_str HeartRate = ''heart_rate''"
| "type_str Spo2 = ''spo2''"
| "type_str Temperature = ''temperature''"
| "type_str HeartRateTrend = ''heart_rate_trend''"
| "type_str Spo2Trend = ''spo2_trend''"
| "type_str TemperatureTrend = ''temperature_trend''"
| "type_str SystemError = ''system_error''"

fun severity_str :: "severity \<Rightarrow> string" where
  "severity_str Info = ''info''"
| "severity_str Warning = ''warning''"
| "severity_str Critical = ''critical''"

text \<open>
  An alert dict. \<open>message\<close> holds the fixed leading text of the f-string (the formatted number
  that follows it in the source is the \<open>a_value\<close> field); \<open>a_value\<close> and \<open>threshold\<close> are
  \<open>None\<close> when the key is absent or (for \<open>threshold\<close>) when \<open>thresholds.get(k)\<close> finds no key.
\<close>

record alert =
  a_type :: alert_type
  a_severity :: severity
  message :: string
  a_value :: "real option"
  threshold :: "real option"
  timestamp :: datetime

section \<open>Double-precision arithmetic\<close>

text \<open>
  Python floats are IEEE 754 doubles: each of \<open>+\<close>, \<open>-\<close>, \<open>*\<close>, \<open>/\<close> returns the exact result
  rounded to the nearest number with a 53-bit significand, ties to the even significand.
  \<open>ilog2 x\<close> is the exponent \<open>k\<close> with \<open>2^k \<le> |x| < 2^(k+1)\<close>; \<open>dbl x\<close> scales \<open>x\<close> so that
  its integer part has 53 bits, rounds to an integer and scales back. The exponent is not
  bounded (no overflow, no subnormals): vital signs, their sums and their means lie far inside
  the normal range. Small ints are doubles, and Python's int arithmetic and int/int division
  agree with the rounded operations on them. A decimal literal denotes the double nearest
  to it, \<open>dbl\<close> of the decimal; the sample windows of the trend detector and the
  Fahrenheit reading are written so. The two default
  thresholds that are not doubles, 36.1 and 37.8, are kept as decimals in the comparisons:
  the double nearest 36.1 lies above it and the source tests \<open>temp < 36.1\<close>, the double
  nearest 37.8 lies below it and the source tests \<open>temp > 37.8\<close> (lemma \<open>decimal_defaults\<close>),
  so no double lies between a decimal and its double on the side that the comparison tests.
\<close>

definition ilog2 :: "real \<Rightarrow> int" where
  "ilog2 x =
     (if \<bar>x\<bar> \<ge> 1 then bitlen \<lfloor>\<bar>x\<bar>\<rfloor> - 1 else - bitlen (\<lceil>1 / \<bar>x\<bar>\<rceil> - 1))"

definition round_even :: "real \<Rightarrow> int" where
  "round_even y =
     (let f = \<lfloor>y\<rfloor>; d = y - of_int f in
      if d < 1 / 2 then f else if d > 1 / 2 then f + 1 else if even f then f else f + 1)"

definition dbl :: "real \<Rightarrow> real" where
  "dbl x =
     (if x = 0 then 0
      else (let e = ilog2 x - 52 in
            if e \<ge> 0 then of_int (round_even (x / 2 ^ nat e)) * 2 ^ nat e
            else of_int (round_even (x * 2 ^ nat (- e))) / 2 ^ nat (- e)))"

definition fadd :: "real \<Rightarrow> real \<Rightarrow> real" where
  "fadd x y = dbl (x + y)"

definition fsub :: "real \<Rightarrow> real \<Rightarrow> real" where
  "fsub x y = dbl (x - y)"

definition fmul :: "real \<Rightarrow> real \<Rightarrow> real" where
  "fmul x y = dbl (x * y)"

definition fdiv :: "real \<Rightarrow> real \<Rightarrow> real" where
  "fdiv x y = dbl (x / y)"

section \<open>Configuration and analyzer state\<close>

record vital_thresholds =
  min_t :: "real option"
  max_t :: "real option"
  critical_min :: "real option"
  critical_max :: "real option"

record thresholds =
  th_heart_rate :: "vital_thresholds option"
  th_spo2 :: "vital_thresholds option"
  th_temperature :: "vital_thresholds option"

definition empty_dict :: vital_thresholds where
  "empty_dict = \<lparr>min_t = None, max_t = None, critical_min = None, critical_max = None\<rparr>"

text \<open>\<open>self.thresholds.get(k, {})\<close> and \<open>thresholds.get(k, d)\<close>.\<close>

definition get_dict :: "vital_thresholds option \<Rightarrow> vital_thresholds" where
  "get_dict d = (case d of None \<Rightarrow> empty_dict | Some t \<Rightarrow> t)"

definition get_or :: "real option \<Rightarrow> real \<Rightarrow> real" where
  "get_or v d = (case v of None \<Rightarrow> d | Some x \<Rightarrow> x)"

record analyzer =
  thresholds :: thresholds
  heart_rate_history :: "pyval list"
  spo2_history :: "pyval list"
  temp_history :: "pyval list"
  last_alert_time :: "string \<rightharpoonup> datetime"
  alert_cooldown :: real

definition init_analyzer :: "thresholds \<Rightarrow> analyzer" where
  "init_analyzer th =
     \<lparr>thresholds = th, heart_rate_history = [], spo2_history = [], temp_history = [],
      last_alert_time = Map.empty, alert_cooldown = 300\<rparr>"

text \<open>\<open>deque(maxlen=60).append\<close>: a full deque drops its oldest element.\<close>

definition maxlen :: nat where
  "maxlen = 60"

definition deque_append :: "'a list \<Rightarrow> 'a \<Rightarrow> 'a list" where
  "deque_append xs x = (if length xs < maxlen then xs @ [x] else tl xs @ [x])"

section \<open>Threshold classification\<close>

definition mk_alert ::
  "alert_type \<Rightarrow> severity \<Rightarrow> string \<Rightarrow> real option \<Rightarrow> real option \<Rightarrow> datetime \<Rightarrow> alert" where
  "mk_alert ty sev msg v th now =
     \<lparr>a_type = ty, a_severity = sev, message = msg, a_value = v, threshold = th,
      timestamp = now\<rparr>"

definition analyze_heart_rate :: "analyzer \<Rightarrow> datetime \<Rightarrow> readings \<Rightarrow> error + alert list" where
  "analyze_heart_rate self now r =
     (case heart_rate r of
        None \<Rightarrow> Inr []
      | Some NonNum \<Rightarrow> Inl TypeError
      | Some (Num hr) \<Rightarrow>
          (let th = get_dict (th_heart_rate (thresholds self)) in
           if hr < get_or (critical_min th) 40 then
             Inr [mk_alert HeartRate Critical ''Critical bradycardia detected''
                    (Some hr) (critical_min th) now]
           else if hr > get_or (critical_max th) 150 then
             Inr [mk_alert HeartRate Critical ''Critical tachycardia detected''
                    (Some hr) (critical_max th) now]
           else if hr < get_or (min_t th) 60 then
             Inr [mk_alert HeartRate Warning ''Bradycardia detected''
                    (Some hr) (min_t th) now]
           else if hr > get_or (max_t th) 100 then
             Inr [mk_alert HeartRate Warning ''Tachycardia detected''
                    (Some hr) (max_t th) now]
           else Inr []))"

definition analyze_spo2 :: "analyzer \<Rightarrow> datetime \<Rightarrow> readings \<Rightarrow> error + alert list" where
  "analyze_spo2 self now r =
     (case spo2 r of
        None \<Rightarrow> Inr []
      | Some NonNum \<Rightarrow> Inl TypeError
      | Some (Num s) \<Rightarrow>
          (let th = get_dict (th_spo2 (thresholds self)) in
           if s < get_or (critical_min th) 90 then
             Inr [mk_alert Spo2 Critical ''Critical hypoxemia detected''
                    (Some s) (critical_min th) now]
           else if s < get_or (min_t th) 95 then
             Inr [mk_alert Spo2 Warning ''Low blood oxygen detected''
                    (Some s) (min_t th) now]
           else Inr []))"

text \<open>
  \<open>readings.get('temperature_unit', 'C')\<close>, then the conversion \<open>(temp - 32) * 5/9\<close> when the
  unit is the string \<open>F\<close>: a subtraction, a multiplication and a division, each rounded.
\<close>

definition to_celsius :: "string option \<Rightarrow> real \<Rightarrow> real" where
  "to_celsius u t =
     (let unit = (case u of None \<Rightarrow> ''C'' | Some s \<Rightarrow> s) in
      if unit = ''F'' then fdiv (fmul (fsub t 32) 5) 9 else t)"

definition analyze_temperature :: "analyzer \<Rightarrow> datetime \<Rightarrow> readings \<Rightarrow> error + alert list" where
  "analyze_temperature self now r =
     (case temperature r of
        None \<Rightarrow> Inr []
      | Some NonNum \<Rightarrow> Inl TypeError
      | Some (Num raw) \<Rightarrow>
          (let th = get_dict (th_temperature (thresholds self));
               temp = to_celsius (temperature_unit r) raw in
           if temp < get_or (critical_min th) 35.0 then
             Inr [mk_alert Temperature Critical ''Critical hypothermia detected''
                    (Some temp) (critical_min th) now]
           else if temp > get_or (critical_max th) 39.0 then
             Inr [mk_alert Temperature Critical ''Critical hyperthermia detected''
                    (Some temp) (critical_max th) now]
           else if temp < get_or (min_t th) 36.1 then
             Inr [mk_alert Temperature Warning ''Low body temperature detected''
                    (Some temp) (min_t th) now]
           else if temp > get_or (max_t th) 37.8 then
             Inr [mk_alert Temperature (if temp < 38.5 then Warning else Critical)
                    ''Fever detected'' (Some temp) (max_t th) now]
           else Inr []))"

section \<open>Trend detection\<close>

text \<open>
  \<open>sum(xs)\<close> starts at 0 and adds the elements from the left, rounding every addition; a
  non-numeric element raises TypeError. (From CPython 3.12 on, \<open>sum\<close> compensates the
  rounding errors of float additions; that variant is not modelled.)
  \<open>xs[-a:]\<close> and \<open>xs[-a:-b]\<close> are Python slices with negative bounds, clamped at 0.
\<close>

fun sum_from :: "real \<Rightarrow> pyval list \<Rightarrow> error + real" where
  "sum_from acc [] = Inr acc"
| "sum_from acc (NonNum # xs) = Inl TypeError"
| "sum_from acc (Num x # xs) = sum_from (fadd acc x) xs"

definition py_sum :: "pyval list \<Rightarrow> error + real" where
  "py_sum xs = sum_from 0 xs"

definition last_n :: "nat \<Rightarrow> 'a list \<Rightarrow> 'a list" where
  "last_n a xs = drop (length xs - a) xs"

definition slice_neg :: "nat \<Rightarrow> nat \<Rightarrow> 'a list \<Rightarrow> 'a list" where
  "slice_neg a b xs = take ((length xs - b) - (length xs - a)) (drop (length xs - a) xs)"

text \<open>
  One block of \<open>_analyze_trends\<close>: the two averages of a history of at least 10 values, or
  \<open>None\<close> for a shorter history; TypeError when a summed value is not a number.
\<close>

definition averages :: "pyval list \<Rightarrow> error + (real \<times> real) option" where
  "averages h =
     (if length h \<ge> 10 then
        (case py_sum (last_n 5 h) of
           Inl e \<Rightarrow> Inl e
         | Inr r \<Rightarrow>
             (case py_sum (slice_neg 10 5 h) of
                Inl e \<Rightarrow> Inl e
              | Inr old \<Rightarrow> Inr (Some (fdiv r 5, fdiv old 5))))
      else Inr None)"

definition hr_trend :: "datetime \<Rightarrow> pyval list \<Rightarrow> error + alert list" where
  "hr_trend now h =
     (case averages h of
        Inl e \<Rightarrow> Inl e
      | Inr None \<Rightarrow> Inr []
      | Inr (Some (recent_avg, older_avg)) \<Rightarrow>
          (if recent_avg > fadd older_avg 20 then
             Inr [mk_alert HeartRateTrend Warning ''Rapid heart rate increase detected''
                    (Some (fsub recent_avg older_avg)) None now]
           else Inr []))"

definition spo2_trend :: "datetime \<Rightarrow> pyval list \<Rightarrow> error + alert list" where
  "spo2_trend now h =
     (case averages h of
        Inl e \<Rightarrow> Inl e
      | Inr None \<Rightarrow> Inr []
      | Inr (Some (recent_avg, older_avg)) \<Rightarrow>
          (if recent_avg < fsub older_avg 3 then
             Inr [mk_alert Spo2Trend Warning ''Declining blood oxygen trend detected''
                    (Some (fsub recent_avg older_avg)) None now]
           else Inr []))"

definition temp_trend :: "datetime \<Rightarrow> pyval list \<Rightarrow> error + alert list" where
  "temp_trend now h =
     (case averages h of
        Inl e \<Rightarrow> Inl e
      | Inr None \<Rightarrow> Inr []
      | Inr (Some (recent_avg, older_avg)) \<Rightarrow>
          (if recent_avg > fadd older_avg 0.5 then
             Inr [mk_alert TemperatureTrend Info ''Rising temperature trend detected''
                    (Some (fsub recent_avg older_avg)) None now]
           else Inr []))"

text \<open>Sequencing of fallible steps: the first TypeError ends the computation.\<close>

definition bind :: "error + 'a \<Rightarrow> ('a \<Rightarrow> error + 'b) \<Rightarrow> error + 'b" where
  "bind m f = (case m of Inl e \<Rightarrow> Inl e | Inr x \<Rightarrow> f x)"

definition analyze_trends :: "analyzer \<Rightarrow> datetime \<Rightarrow> error + alert list" where
  "analyze_trends self now =
     bind (hr_trend now (heart_rate_history self)) (\<lambda>a1.
     bind (spo2_trend now (spo2_history self)) (\<lambda>a2.
     bind (temp_trend now (temp_history self)) (\<lambda>a3.
     Inr (a1 @ a2 @ a3))))"

section \<open>Cooldown filter\<close>

definition alert_key :: "alert \<Rightarrow> string" where
  "alert_key a = type_str (a_type a) @ ''_'' @ severity_str (a_severity a)"

text \<open>
  The loop of \<open>_apply_cooldown\<close>: \<open>current_time\<close> is read once before the loop; a dropped alert
  (\<open>continue\<close>) leaves \<open>last_alert_time\<close> as it is.
\<close>

definition in_cooldown :: "real \<Rightarrow> datetime \<Rightarrow> (string \<rightharpoonup> datetime) \<Rightarrow> alert \<Rightarrow> bool" where
  "in_cooldown cd current_time m a =
     (case m (alert_key a) of
        None \<Rightarrow> False
      | Some prior \<Rightarrow> current_time - prior < cd)"

fun cooldown_loop ::
  "real \<Rightarrow> datetime \<Rightarrow> alert list \<Rightarrow> (string \<rightharpoonup> datetime) \<Rightarrow> alert list \<times> (string \<rightharpoonup> datetime)"
where
  "cooldown_loop cd current_time [] m = ([], m)"
| "cooldown_loop cd current_time (a # as) m =
     (if in_cooldown cd current_time m a then cooldown_loop cd current_time as m
      else (let (filtered, m') = cooldown_loop cd current_time as (m(alert_key a \<mapsto> current_time))
            in (a # filtered, m')))"

definition apply_cooldown :: "analyzer \<Rightarrow> datetime \<Rightarrow> alert list \<Rightarrow> alert list \<times> analyzer" where
  "apply_cooldown self current_time alerts =
     (let (filtered, m') =
        cooldown_loop (alert_cooldown self) current_time alerts (last_alert_time self)
      in (filtered, self\<lparr>last_alert_time := m'\<rparr>))"

section \<open>The analyze entry point\<close>

definition update_history :: "analyzer \<Rightarrow> readings \<Rightarrow> analyzer" where
  "update_history self r =
     (let s1 = (case heart_rate r of None \<Rightarrow> self
                | Some v \<Rightarrow> self\<lparr>heart_rate_history := deque_append (heart_rate_history self) v\<rparr>);
          s2 = (case spo2 r of None \<Rightarrow> s1
                | Some v \<Rightarrow> s1\<lparr>spo2_history := deque_append (spo2_history s1) v\<rparr>);
          s3 = (case temperature r of None \<Rightarrow> s2
                | Some v \<Rightarrow> s2\<lparr>temp_history := deque_append (temp_history s2) v\<rparr>)
      in s3)"

text \<open>The body of the \<open>try\<close> block after the history update, on the updated analyzer.\<close>

definition analyze_body :: "analyzer \<Rightarrow> datetime \<Rightarrow> readings \<Rightarrow> error + (alert list \<times> analyzer)" where
  "analyze_body self now r =
     bind (analyze_heart_rate self now r) (\<lambda>a1.
     bind (analyze_spo2 self now r) (\<lambda>a2.
     bind (analyze_temperature self now r) (\<lambda>a3.
     bind (analyze_trends self now) (\<lambda>a4.
     Inr (apply_cooldown self now (a1 @ a2 @ a3 @ a4))))))"

text \<open>
  \<open>analyze\<close>: the history is updated first (an append cannot raise), and \<open>except Exception\<close>
  turns any error of the body into the empty list; the appended history stays.
\<close>

definition analyze :: "analyzer \<Rightarrow> datetime \<Rightarrow> readings \<Rightarrow> alert list \<times> analyzer" where
  "analyze self now r =
     (let s = update_history self r in
      case analyze_body s now r of
        Inl e \<Rightarrow> ([], s)
      | Inr res \<Rightarrow> res)"

section \<open>Statistics\<close>









section \<open>Notification channels\<close>

text \<open>
  What the outside world does during one \<open>send_alert\<close>: the SMTP session, the Twilio call and
  the two indicator calls each either return or raise. Every \<open>send\<close> wraps its calls in
  \<open>try ... except Exception: return False\<close>.
\<close>

datatype channel = Email | Sms | Local

record transports =
  smtp :: "alert \<Rightarrow> error + unit"
  twilio :: "alert \<Rightarrow> error + unit"
  set_led :: "string \<Rightarrow> error + unit"
  beep :: "real \<Rightarrow> nat \<Rightarrow> error + unit"

record alert_manager =
  email_enabled :: bool
  sms_enabled :: bool
  indicators :: bool
  led_enabled :: bool
  buzzer_enabled :: bool
  alert_history :: "alert list"
  max_history :: nat

definition init_manager :: "bool \<Rightarrow> bool \<Rightarrow> bool \<Rightarrow> bool \<Rightarrow> bool \<Rightarrow> alert_manager" where
  "init_manager e s i l b =
     \<lparr>email_enabled = e, sms_enabled = s, indicators = i, led_enabled = l, buzzer_enabled = b,
      alert_history = [], max_history = 1000\<rparr>"

definition email_send :: "alert_manager \<Rightarrow> transports \<Rightarrow> alert \<Rightarrow> bool" where
  "email_send self env a =
     (if \<not> email_enabled self then False
      else (case smtp env a of Inl e \<Rightarrow> False | Inr u \<Rightarrow> True))"

definition sms_send :: "alert_manager \<Rightarrow> transports \<Rightarrow> alert \<Rightarrow> bool" where
  "sms_send self env a =
     (if \<not> sms_enabled self then False
      else (case twilio env a of Inl e \<Rightarrow> False | Inr u \<Rightarrow> True))"

fun led_colors :: "severity \<Rightarrow> string" where
  "led_colors Critical = ''red''"
| "led_colors Warning = ''yellow''"
| "led_colors Info = ''blue''"

fun beep_patterns :: "severity \<Rightarrow> real \<times> nat" where
  "beep_patterns Critical = (0.5, 3)"
| "beep_patterns Warning = (0.2, 2)"
| "beep_patterns Info = (0.1, 1)"

definition local_body :: "alert_manager \<Rightarrow> transports \<Rightarrow> alert \<Rightarrow> error + unit" where
  "local_body self env a =
     bind (if led_enabled self then set_led env (led_colors (a_severity a)) else Inr ()) (\<lambda>u.
     (if buzzer_enabled self
      then (case beep_patterns (a_severity a) of (duration, count) \<Rightarrow> beep env duration count)
      else Inr ()))"

definition local_send :: "alert_manager \<Rightarrow> transports \<Rightarrow> alert \<Rightarrow> bool" where
  "local_send self env a =
     (if \<not> indicators self then False
      else (case local_body self env a of Inl e \<Rightarrow> False | Inr u \<Rightarrow> True))"

text \<open>
  The outcome of one \<open>send_alert\<close>: the returned dict \<open>results\<close>, the channels whose \<open>send\<close>
  was called, in call order (an observation of the calls, not a value the source keeps),
  and the manager with its history updated.
\<close>

record dispatch =
  results :: "channel \<Rightarrow> bool"
  attempts :: "channel list"
  manager :: alert_manager

definition add_history :: "alert_manager \<Rightarrow> alert \<Rightarrow> alert_manager" where
  "add_history self a =
     (let h = alert_history self @ [a] in
      self\<lparr>alert_history := (if length h > max_history self then tl h else h)\<rparr>)"

definition send_alert :: "alert_manager \<Rightarrow> transports \<Rightarrow> alert \<Rightarrow> dispatch" where
  "send_alert self env a =
     (let self' = add_history self a;
          res = (\<lambda>c. False) in
      if a_severity a = Critical then
        \<lparr>results = res(Email := email_send self env a, Sms := sms_send self env a,
                       Local := local_send self env a),
         attempts = [Email, Sms, Local], manager = self'\<rparr>
      else if a_severity a = Warning then
        \<lparr>results = res(Email := email_send self env a, Local := local_send self env a),
         attempts = [Email, Local], manager = self'\<rparr>
      else
        \<lparr>results = res(Local := local_send self env a),
         attempts = [Local], manager = self'\<rparr>)"

text \<open>A sequence of \<open>send_alert\<close> calls, each with the behaviour of the outside world at its time.\<close>

fun send_alerts :: "alert_manager \<Rightarrow> (transports \<times> alert) list \<Rightarrow> alert_manager" where
  "send_alerts self [] = self"
| "send_alerts self ((env, a) # rest) = send_alerts (manager (send_alert self env a)) rest"

section \<open>The monitor loop\<close>

text \<open>
  One iteration of the \<open>while self.running\<close> loop of \<open>EdgePulseMonitor.start\<close>. The world of a
  tick: what \<open>sensor_manager.read_all()\<close> does (raises, returns a falsy value, returns
  readings), the clock, and the transports. \<open>save_reading\<close>, \<open>save_alert\<close>, \<open>analyze\<close> and
  \<open>send_alert\<close> catch their own exceptions, so the raise site of the loop body is the read.
  A tick returns the alerts passed to \<open>send_alert\<close>, in order, beside the new state.
\<close>

record tick_env =
  read_all :: "error + readings option"
  clock :: datetime
  world :: transports

record monitor =
  analyzer :: analyzer
  alert_manager :: alert_manager
  consecutive_errors :: nat

definition max_consecutive_errors :: nat where
  "max_consecutive_errors = 5"

definition error_alert :: "datetime \<Rightarrow> alert" where
  "error_alert now =
     mk_alert SystemError Critical
       ''Sensor communication failure - multiple consecutive errors'' None None now"

definition tick :: "monitor \<Rightarrow> tick_env \<Rightarrow> monitor \<times> alert list" where
  "tick self env =
     (case read_all env of
        Inl e \<Rightarrow> (self\<lparr>consecutive_errors := consecutive_errors self + 1\<rparr>, [])
      | Inr (Some r) \<Rightarrow>
          (case analyze (analyzer self) (clock env) r of (alerts, an) \<Rightarrow>
             (self\<lparr>analyzer := an,
                   alert_manager :=
                     send_alerts (alert_manager self) (map (\<lambda>a. (world env, a)) alerts),
                   consecutive_errors := 0\<rparr>,
              alerts))
      | Inr None \<Rightarrow>
          (let c = consecutive_errors self + 1 in
           if c \<ge> max_consecutive_errors then
             (self\<lparr>alert_manager :=
                      manager (send_alert (alert_manager self) (world env) (error_alert (clock env))),
                   consecutive_errors := 0\<rparr>,
              [error_alert (clock env)])
           else (self\<lparr>consecutive_errors := c\<rparr>, [])))"

fun run :: "monitor \<Rightarrow> tick_env list \<Rightarrow> monitor \<times> alert list" where
  "run self [] = (self, [])"
| "run self (env # envs) =
     (case tick self env of (s1, d1) \<Rightarrow>
        (case run s1 envs of (s2, d2) \<Rightarrow> (s2, d1 @ d2)))"

section \<open>Reference configuration and rule tables\<close>

text \<open>The thresholds of the module's self-test (\<open>if __name__ == '__main__'\<close> in analyzer.py).\<close>

definition default_thresholds :: thresholds where
  "default_thresholds =
     \<lparr>th_heart_rate = Some \<lparr>min_t = Some 60, max_t = Some 100,
                             critical_min = Some 40, critical_max = Some 150\<rparr>,
      th_spo2 = Some \<lparr>min_t = Some 95, max_t = None, critical_min = Some 90, critical_max = None\<rparr>,
      th_temperature = Some \<lparr>min_t = Some 36.1, max_t = Some 37.8,
                              critical_min = Some 35.0, critical_max = Some 39.0\<rparr>\<rparr>"

definition no_readings :: readings where
  "no_readings =
     \<lparr>heart_rate = None, spo2 = None, temperature = None, temperature_unit = None\<rparr>"

text \<open>
  The specification's reading of the classifier: per vital, a table of rules in precedence
  order (critical_min, critical_max, min, max), of which the first whose condition holds
  decides the event. \<open>first_match\<close> and the \<open>spec_*_rules\<close> tables follow the specification;
  the theorems below compare them with the if-chains of the source.
\<close>

fun first_match :: "(bool \<times> 'a) list \<Rightarrow> 'a option" where
  "first_match [] = None"
| "first_match ((c, x) # rules) = (if c then Some x else first_match rules)"

definition emitted :: "'a option \<Rightarrow> 'a list" where
  "emitted e = (case e of None \<Rightarrow> [] | Some a \<Rightarrow> [a])"

definition spec_hr_rules :: "vital_thresholds \<Rightarrow> datetime \<Rightarrow> real \<Rightarrow> (bool \<times> alert) list" where
  "spec_hr_rules th now v =
     [(v < get_or (critical_min th) 40,
         mk_alert HeartRate Critical ''Critical bradycardia detected'' (Some v) (critical_min th) now),
      (v > get_or (critical_max th) 150,
         mk_alert HeartRate Critical ''Critical tachycardia detected'' (Some v) (critical_max th) now),
      (v < get_or (min_t th) 60,
         mk_alert HeartRate Warning ''Bradycardia detected'' (Some v) (min_t th) now),
      (v > get_or (max_t th) 100,
         mk_alert HeartRate Warning ''Tachycardia detected'' (Some v) (max_t th) now)]"

definition spec_spo2_rules :: "vital_thresholds \<Rightarrow> datetime \<Rightarrow> real \<Rightarrow> (bool \<times> alert) list" where
  "spec_spo2_rules th now v =
     [(v < get_or (critical_min th) 90,
         mk_alert Spo2 Critical ''Critical hypoxemia detected'' (Some v) (critical_min th) now),
      (v < get_or (min_t th) 95,
         mk_alert Spo2 Warning ''Low blood oxygen detected'' (Some v) (min_t th) now)]"

definition spec_temp_rules :: "vital_thresholds \<Rightarrow> datetime \<Rightarrow> real \<Rightarrow> (bool \<times> alert) list" where
  "spec_temp_rules th now v =
     [(v < get_or (critical_min th) 35.0,
         mk_alert Temperature Critical ''Critical hypothermia detected'' (Some v) (critical_min th) now),
      (v > get_or (critical_max th) 39.0,
         mk_alert Temperature Critical ''Critical hyperthermia detected'' (Some v) (critical_max th) now),
      (v < get_or (min_t th) 36.1,
         mk_alert Temperature Warning ''Low body temperature detected'' (Some v) (min_t th) now),
      (v > get_or (max_t th) 37.8,
         mk_alert Temperature (if v < 38.5 then Warning else Critical) ''Fever detected''
           (Some v) (max_t th) now)]"











text \<open>Sample states for the cooldown filter and the trend detector.\<close>

definition warned_at_0 :: analyzer where
  "warned_at_0 =
     (init_analyzer default_thresholds)\<lparr>last_alert_time := [''heart_rate_warning'' \<mapsto> 0]\<rparr>"

definition hr_warning :: "datetime \<Rightarrow> alert" where
  "hr_warning now = mk_alert HeartRate Warning ''Bradycardia detected'' (Some 45) (Some 60) now"

definition hr_critical :: "datetime \<Rightarrow> alert" where
  "hr_critical now =
     mk_alert HeartRate Critical ''Critical bradycardia detected'' (Some 35) (Some 40) now"


text \<open>
  The fever branch of \<open>_analyze_temperature\<close> is reached when none of the three branches
  before it fires and the value is above \<open>max\<close>.
\<close>

definition fever_branch :: "vital_thresholds \<Rightarrow> real \<Rightarrow> bool" where
  "fever_branch th temp \<longleftrightarrow>
     \<not> temp < get_or (critical_min th) 35.0 \<and> \<not> temp > get_or (critical_max th) 39.0 \<and>
     \<not> temp < get_or (min_t th) 36.1 \<and> temp > get_or (max_t th) 37.8"

text \<open>
  A configuration whose critical lower bound lies above its warning lower bound (the
  configuration file is not validated), and the ordering that the shipped thresholds have.
\<close>

definition misordered_thresholds :: thresholds where
  "misordered_thresholds =
     \<lparr>th_heart_rate = Some \<lparr>min_t = Some 60, max_t = Some 100,
                             critical_min = Some 70, critical_max = Some 150\<rparr>,
      th_spo2 = None, th_temperature = None\<rparr>"

definition ordered :: "vital_thresholds \<Rightarrow> real \<Rightarrow> real \<Rightarrow> real \<Rightarrow> real \<Rightarrow> bool" where
  "ordered th dmin dmax dcmin dcmax \<longleftrightarrow>
     get_or (critical_min th) dcmin \<le> get_or (min_t th) dmin \<and>
     get_or (max_t th) dmax \<le> get_or (critical_max th) dcmax"





text \<open>
  The specification's routing table, and the \<open>send\<close> method of each channel under one name.
\<close>

fun spec_channels :: "severity \<Rightarrow> channel set" where
  "spec_channels Critical = {Email, Sms, Local}"
| "spec_channels Warning = {Email, Local}"
| "spec_channels Info = {Local}"

fun channel_send :: "channel \<Rightarrow> alert_manager \<Rightarrow> transports \<Rightarrow> alert \<Rightarrow> bool" where
  "channel_send Email self env a = email_send self env a"
| "channel_send Sms self env a = sms_send self env a"
| "channel_send Local self env a = local_send self env a"

text \<open>
  Sample worlds and managers: every transport returning, every transport raising, the SMTP
  session alone raising; a manager with every channel enabled.
\<close>

definition quiet :: transports where
  "quiet = \<lparr>smtp = (\<lambda>a. Inr ()), twilio = (\<lambda>a. Inr ()),
            set_led = (\<lambda>c. Inr ()), beep = (\<lambda>d n. Inr ())\<rparr>"

definition all_down :: transports where
  "all_down = \<lparr>smtp = (\<lambda>a. Inl TransportError), twilio = (\<lambda>a. Inl TransportError),
               set_led = (\<lambda>c. Inl TransportError), beep = (\<lambda>d n. Inl TransportError)\<rparr>"

definition armed :: alert_manager where
  "armed = init_manager True True True True True"

definition smtp_down :: transports where
  "smtp_down = quiet\<lparr>smtp := (\<lambda>a. Inl TransportError)\<rparr>"

text \<open>
  The monitor as \<open>EdgePulseMonitor.__init__\<close> builds it (no indicators are passed to the
  alert manager), a tick whose read raises, and a tick whose read returns nothing.
\<close>

definition monitor0 :: monitor where
  "monitor0 =
     \<lparr>analyzer = init_analyzer default_thresholds,
      alert_manager = init_manager False False False True True,
      consecutive_errors = 0\<rparr>"

definition raising :: tick_env where
  "raising = \<lparr>read_all = Inl TransportError, clock = 0, world = quiet\<rparr>"

definition failing :: tick_env where
  "failing = \<lparr>read_all = Inr None, clock = 0, world = quiet\<rparr>"

section \<open>Double-precision arithmetic: known values\<close>

text \<open>
  The double of 0.1 is 0x1.999999999999ap-4; the doubles of 36.1 and 37.8 lie above and below
  their decimals; 100.04 degrees Fahrenheit convert to the double next above that of 37.8.
\<close>

lemma dbl_tenth: "dbl 0.1 = 3602879701896397 / 2 ^ 55"
  by code_simp

lemma decimal_defaults: "36.1 < dbl 36.1 \<and> dbl 37.8 < 37.8"
  by code_simp

lemma convert_100_04:
  "fdiv (fmul (fsub (dbl 100.04) 32) 5) 9 = 5319877059831399 / 2 ^ 47 \<and>
   dbl 37.8 = 5319877059831398 / 2 ^ 47"
  by code_simp

section \<open>Threshold classification: precedence\<close>

lemma hr_first_match:
  "heart_rate r = Some (Num v) \<Longrightarrow>
   analyze_heart_rate self now r =
     Inr (emitted (first_match (spec_hr_rules (get_dict (th_heart_rate (thresholds self))) now v)))"
  by (simp add: analyze_heart_rate_def spec_hr_rules_def emitted_def Let_def)

lemma spo2_first_match:
  "spo2 r = Some (Num v) \<Longrightarrow>
   analyze_spo2 self now r =
     Inr (emitted (first_match (spec_spo2_rules (get_dict (th_spo2 (thresholds self))) now v)))"
  by (simp add: analyze_spo2_def spec_spo2_rules_def emitted_def Let_def)

lemma temp_first_match:
  "temperature r = Some (Num raw) \<Longrightarrow>
   analyze_temperature self now r =
     Inr (emitted (first_match (spec_temp_rules (get_dict (th_temperature (thresholds self))) now
            (to_celsius (temperature_unit r) raw))))"
  by (simp add: analyze_temperature_def spec_temp_rules_def emitted_def Let_def)

lemma hr_events:
  "analyze_heart_rate self now r = Inr als \<Longrightarrow>
   length als \<le> 1 \<and> (\<forall>a \<in> set als. a_type a = HeartRate)"
  by (auto simp: analyze_heart_rate_def mk_alert_def Let_def
           split: option.splits pyval.splits if_splits)

lemma spo2_events:
  "analyze_spo2 self now r = Inr als \<Longrightarrow>
   length als \<le> 1 \<and> (\<forall>a \<in> set als. a_type a = Spo2)"
  by (auto simp: analyze_spo2_def mk_alert_def Let_def
           split: option.splits pyval.splits if_splits)

lemma temp_events:
  "analyze_temperature self now r = Inr als \<Longrightarrow>
   length als \<le> 1 \<and> (\<forall>a \<in> set als. a_type a = Temperature)"
  by (auto simp: analyze_temperature_def mk_alert_def Let_def
           split: option.splits pyval.splits if_splits)

lemma short_cases: "length xs \<le> 1 \<Longrightarrow> xs = [] \<or> (\<exists>a. xs = [a])"
  by (cases xs) auto

lemma one_per_type:
  assumes "analyze_heart_rate self now r = Inr a1"
    and "analyze_spo2 self now r = Inr a2"
    and "analyze_temperature self now r = Inr a3"
  shows "length (filter (\<lambda>a. a_type a = ty) (a1 @ a2 @ a3)) \<le> 1"
proof -
  note h = hr_events [OF assms(1)] and s = spo2_events [OF assms(2)]
    and t = temp_events [OF assms(3)]
  from h have c1: "a1 = [] \<or> (\<exists>a. a1 = [a] \<and> a_type a = HeartRate)"
    using short_cases [of a1] by auto
  from s have c2: "a2 = [] \<or> (\<exists>a. a2 = [a] \<and> a_type a = Spo2)"
    using short_cases [of a2] by auto
  from t have c3: "a3 = [] \<or> (\<exists>a. a3 = [a] \<and> a_type a = Temperature)"
    using short_cases [of a3] by auto
  from c1 c2 c3 show ?thesis by auto
qed


text \<open>
  C1. For each vital, a numeric value is classified by the first matching rule in the
  order critical_min, critical_max, min, max (SpO2 has the two lower bounds only), so a call
  yields at most one threshold event per vital; a value below critical_min yields exactly
  one event, of severity critical, hence no warning event for that vital.
\<close>

theorem threshold_first_match_wins:
  "(heart_rate r = Some (Num h) \<longrightarrow>
      analyze_heart_rate self now r =
        Inr (emitted (first_match
               (spec_hr_rules (get_dict (th_heart_rate (thresholds self))) now h))) \<and>
      (h < get_or (critical_min (get_dict (th_heart_rate (thresholds self)))) 40 \<longrightarrow>
         (\<exists>a. analyze_heart_rate self now r = Inr [a] \<and> a_type a = HeartRate \<and>
              a_severity a = Critical))) \<and>
   (spo2 r = Some (Num s) \<longrightarrow>
      analyze_spo2 self now r =
        Inr (emitted (first_match
               (spec_spo2_rules (get_dict (th_spo2 (thresholds self))) now s))) \<and>
      (s < get_or (critical_min (get_dict (th_spo2 (thresholds self)))) 90 \<longrightarrow>
         (\<exists>a. analyze_spo2 self now r = Inr [a] \<and> a_type a = Spo2 \<and>
              a_severity a = Critical))) \<and>
   (temperature r = Some (Num t) \<longrightarrow>
      analyze_temperature self now r =
        Inr (emitted (first_match
               (spec_temp_rules (get_dict (th_temperature (thresholds self))) now
                  (to_celsius (temperature_unit r) t)))) \<and>
      (to_celsius (temperature_unit r) t
         < get_or (critical_min (get_dict (th_temperature (thresholds self)))) 35.0 \<longrightarrow>
         (\<exists>a. analyze_temperature self now r = Inr [a] \<and> a_type a = Temperature \<and>
              a_severity a = Critical))) \<and>
   (analyze_heart_rate self now r = Inr a1 \<and> analyze_spo2 self now r = Inr a2 \<and>
    analyze_temperature self now r = Inr a3 \<longrightarrow>
      length (filter (\<lambda>a. a_type a = ty) (a1 @ a2 @ a3)) \<le> 1)"
proof (intro conjI impI)
  assume "heart_rate r = Some (Num h)"
  then show "analyze_heart_rate self now r =
      Inr (emitted (first_match
             (spec_hr_rules (get_dict (th_heart_rate (thresholds self))) now h)))"
    by (rule hr_first_match)
next
  assume "heart_rate r = Some (Num h)"
    and "h < get_or (critical_min (get_dict (th_heart_rate (thresholds self)))) 40"
  then show "\<exists>a. analyze_heart_rate self now r = Inr [a] \<and> a_type a = HeartRate \<and>
      a_severity a = Critical"
    by (simp add: analyze_heart_rate_def mk_alert_def Let_def)
next
  assume "spo2 r = Some (Num s)"
  then show "analyze_spo2 self now r =
      Inr (emitted (first_match (spec_spo2_rules (get_dict (th_spo2 (thresholds self))) now s)))"
    by (rule spo2_first_match)
next
  assume "spo2 r = Some (Num s)"
    and "s < get_or (critical_min (get_dict (th_spo2 (thresholds self)))) 90"
  then show "\<exists>a. analyze_spo2 self now r = Inr [a] \<and> a_type a = Spo2 \<and>
      a_severity a = Critical"
    by (simp add: analyze_spo2_def mk_alert_def Let_def)
next
  assume "temperature r = Some (Num t)"
  then show "analyze_temperature self now r =
      Inr (emitted (first_match
             (spec_temp_rules (get_dict (th_temperature (thresholds self))) now
                (to_celsius (temperature_unit r) t))))"
    by (rule temp_first_match)
next
  assume "temperature r = Some (Num t)"
    and "to_celsius (temperature_unit r) t
           < get_or (critical_min (get_dict (th_temperature (thresholds self)))) 35.0"
  then show "\<exists>a. analyze_temperature self now r = Inr [a] \<and> a_type a = Temperature \<and>
      a_severity a = Critical"
    by (simp add: analyze_temperature_def mk_alert_def Let_def)
next
  assume "analyze_heart_rate self now r = Inr a1 \<and> analyze_spo2 self now r = Inr a2 \<and>
    analyze_temperature self now r = Inr a3"
  then show "length (filter (\<lambda>a. a_type a = ty) (a1 @ a2 @ a3)) \<le> 1"
    using one_per_type by blast
qed

theorem threshold_first_match_wins_witness:
  "analyze_heart_rate (init_analyzer default_thresholds) 0
     (no_readings\<lparr>heart_rate := Some (Num 35), spo2 := Some (Num 88),
                   temperature := Some (Num 93.2), temperature_unit := Some ''F''\<rparr>)
     = Inr [mk_alert HeartRate Critical ''Critical bradycardia detected'' (Some 35) (Some 40) 0] \<and>
   analyze_spo2 (init_analyzer default_thresholds) 0
     (no_readings\<lparr>heart_rate := Some (Num 35), spo2 := Some (Num 88),
                   temperature := Some (Num 93.2), temperature_unit := Some ''F''\<rparr>)
     = Inr [mk_alert Spo2 Critical ''Critical hypoxemia detected'' (Some 88) (Some 90) 0] \<and>
   analyze_temperature (init_analyzer default_thresholds) 0
     (no_readings\<lparr>heart_rate := Some (Num 35), spo2 := Some (Num 88),
                   temperature := Some (Num 93.2), temperature_unit := Some ''F''\<rparr>)
     = Inr [mk_alert Temperature Critical ''Critical hypothermia detected''
              (Some 34) (Some 35) 0]"
proof -
  have c: "to_celsius (Some ''F'') (466 / 5) = 34"
    by code_simp
  show ?thesis
    using threshold_first_match_wins
      [of "no_readings\<lparr>heart_rate := Some (Num 35), spo2 := Some (Num 88),
                         temperature := Some (Num 93.2), temperature_unit := Some ''F''\<rparr>"
          35 "init_analyzer default_thresholds" 0 88 "93.2"]
    by (simp add: no_readings_def init_analyzer_def default_thresholds_def get_dict_def
          get_or_def spec_hr_rules_def spec_spo2_rules_def spec_temp_rules_def emitted_def c)
qed

section \<open>Cooldown filter\<close>

lemma cooldown_loop_append:
  "cooldown_loop cd now (xs @ ys) m =
     (case cooldown_loop cd now xs m of (f1, m1) \<Rightarrow>
        (case cooldown_loop cd now ys m1 of (f2, m2) \<Rightarrow> (f1 @ f2, m2)))"
  by (induction xs arbitrary: m) (auto split: prod.splits)

lemma in_cooldown_iff:
  "in_cooldown cd now m a \<longleftrightarrow> (\<exists>prior. m (alert_key a) = Some prior \<and> now - prior < cd)"
  by (simp add: in_cooldown_def split: option.splits)

lemma cooldown_loop_single:
  "cooldown_loop cd now [a] m =
     (if in_cooldown cd now m a then ([], m) else ([a], m(alert_key a \<mapsto> now)))"
  by simp

lemma alert_key_inj:
  "alert_key a = alert_key b \<longleftrightarrow> a_type a = a_type b \<and> a_severity a = a_severity b"
  by (cases "a_type a"; cases "a_type b"; cases "a_severity a"; cases "a_severity b")
     (simp_all add: alert_key_def)

lemma apply_cooldown_snoc:
  "apply_cooldown self now (xs @ [a]) =
     (case apply_cooldown self now xs of (f, s) \<Rightarrow>
        if (\<exists>prior. last_alert_time s (alert_key a) = Some prior \<and>
              now - prior < alert_cooldown self)
        then (f, s)
        else (f @ [a], s\<lparr>last_alert_time := (last_alert_time s)(alert_key a \<mapsto> now)\<rparr>))"
  by (auto simp: apply_cooldown_def cooldown_loop_append in_cooldown_iff split: prod.splits)

lemma analyze_keeps_cooldown: "alert_cooldown (snd (analyze self now r)) = alert_cooldown self"
  by (simp add: analyze_def analyze_body_def bind_def apply_cooldown_def update_history_def
        Let_def split: sum.splits option.splits prod.splits)

text \<open>
  C2. Running the filter over a list, the event at position \<open>i\<close> meets the state left by the
  events before it: it is dropped exactly when its key has a recorded instant \<open>prior\<close> with
  \<open>now - prior\<close> below the cooldown, and then list and state stay as they are; otherwise it
  is appended to the survivors and its key alone is set to \<open>now\<close>. Keys are equal only for
  equal type and equal severity, so severities of one vital have separate timers. The
  cooldown is 300 seconds from construction on and \<open>analyze\<close> never changes it.
\<close>

theorem cooldown_filter:
  "apply_cooldown self now [] = ([], self) \<and>
   (i < length alerts \<longrightarrow>
      apply_cooldown self now (take (Suc i) alerts) =
        (case apply_cooldown self now (take i alerts) of (f, s) \<Rightarrow>
           if (\<exists>prior. last_alert_time s (alert_key (alerts ! i)) = Some prior \<and>
                 now - prior < alert_cooldown self)
           then (f, s)
           else (f @ [alerts ! i],
                 s\<lparr>last_alert_time := (last_alert_time s)(alert_key (alerts ! i) \<mapsto> now)\<rparr>))) \<and>
   (alert_key a = alert_key b \<longleftrightarrow> a_type a = a_type b \<and> a_severity a = a_severity b) \<and>
   alert_cooldown (init_analyzer th) = 300 \<and>
   alert_cooldown (snd (analyze self now r)) = alert_cooldown self"
proof (intro conjI impI)
  show "apply_cooldown self now [] = ([], self)"
    by (simp add: apply_cooldown_def)
next
  assume "i < length alerts"
  then show "apply_cooldown self now (take (Suc i) alerts) =
        (case apply_cooldown self now (take i alerts) of (f, s) \<Rightarrow>
           if (\<exists>prior. last_alert_time s (alert_key (alerts ! i)) = Some prior \<and>
                 now - prior < alert_cooldown self)
           then (f, s)
           else (f @ [alerts ! i],
                 s\<lparr>last_alert_time := (last_alert_time s)(alert_key (alerts ! i) \<mapsto> now)\<rparr>))"
    by (simp add: take_Suc_conv_app_nth apply_cooldown_snoc)
next
  show "alert_key a = alert_key b \<longleftrightarrow> a_type a = a_type b \<and> a_severity a = a_severity b"
    by (rule alert_key_inj)
next
  show "alert_cooldown (init_analyzer th) = 300"
    by (simp add: init_analyzer_def)
next
  show "alert_cooldown (snd (analyze self now r)) = alert_cooldown self"
    by (rule analyze_keeps_cooldown)
qed

theorem cooldown_filter_witness:
  "apply_cooldown warned_at_0 100 [hr_warning 100, hr_critical 100] =
     ([hr_critical 100],
      warned_at_0\<lparr>last_alert_time :=
        [''heart_rate_warning'' \<mapsto> 0, ''heart_rate_critical'' \<mapsto> 100]\<rparr>) \<and>
   apply_cooldown warned_at_0 300 [hr_warning 300] =
     ([hr_warning 300], warned_at_0\<lparr>last_alert_time := [''heart_rate_warning'' \<mapsto> 300]\<rparr>)"
  using cooldown_filter [of warned_at_0 100 1 "[hr_warning 100, hr_critical 100]"]
    cooldown_filter [of warned_at_0 100 0 "[hr_warning 100, hr_critical 100]"]
    cooldown_filter [of warned_at_0 300 0 "[hr_warning 300]"]
  by (simp add: warned_at_0_def hr_warning_def hr_critical_def mk_alert_def alert_key_def
        init_analyzer_def)

section \<open>Trend detection\<close>











section \<open>The fever branch\<close>

text \<open>
  C5, as amended. When the temperature (in Celsius after conversion) reaches the fever
  branch, the event is a warning when the value is strictly below 38.5 and critical when it
  is 38.5 or above: the source tests \<open>temp < 38.5\<close>.
\<close>

theorem fever_severity:
  assumes "temperature r = Some (Num raw)"
    and "fever_branch (get_dict (th_temperature (thresholds self))) (to_celsius (temperature_unit r) raw)"
  shows "analyze_temperature self now r =
     Inr [mk_alert Temperature
            (if to_celsius (temperature_unit r) raw < 38.5 then Warning else Critical)
            ''Fever detected'' (Some (to_celsius (temperature_unit r) raw))
            (max_t (get_dict (th_temperature (thresholds self)))) now]"
  using assms by (simp add: analyze_temperature_def fever_branch_def Let_def)

theorem fever_severity_witness:
  "analyze_temperature (init_analyzer default_thresholds) 0
     (no_readings\<lparr>temperature := Some (Num 100.4), temperature_unit := Some ''F''\<rparr>) =
     Inr [mk_alert Temperature Warning ''Fever detected'' (Some 38) (Some 37.8) 0] \<and>
   analyze_temperature (init_analyzer default_thresholds) 0
     (no_readings\<lparr>temperature := Some (Num 38.7)\<rparr>) =
     Inr [mk_alert Temperature Critical ''Fever detected'' (Some 38.7) (Some 37.8) 0]"
proof -
  have c: "to_celsius (Some ''F'') (502 / 5) = 38"
    by code_simp
  have d: "to_celsius None (387 / 10) = 387 / 10"
    by (simp add: to_celsius_def)
  show ?thesis
    using fever_severity [of "no_readings\<lparr>temperature := Some (Num 100.4),
                                temperature_unit := Some ''F''\<rparr>" "100.4"
                             "init_analyzer default_thresholds" 0]
      fever_severity [of "no_readings\<lparr>temperature := Some (Num 38.7)\<rparr>" "38.7"
                         "init_analyzer default_thresholds" 0]
    by (simp add: fever_branch_def init_analyzer_def
          default_thresholds_def no_readings_def get_dict_def get_or_def c d)
qed

text \<open>
  C5 as stated fails at exactly 38.5 degrees Celsius with the shipped thresholds: the value
  reaches the fever branch and does not exceed 38.5, yet the event is critical.
\<close>

theorem fever_severity_counterexample:
  "fever_branch (get_dict (th_temperature (thresholds (init_analyzer default_thresholds))))
     (to_celsius None 38.5) \<and>
   \<not> to_celsius None 38.5 > 38.5 \<and>
   analyze_temperature (init_analyzer default_thresholds) 0
     (no_readings\<lparr>temperature := Some (Num 38.5)\<rparr>) =
     Inr [mk_alert Temperature Critical ''Fever detected'' (Some 38.5) (Some 37.8) 0]"
  by (simp add: analyze_temperature_def fever_branch_def init_analyzer_def
        default_thresholds_def no_readings_def get_dict_def get_or_def to_celsius_def)

section \<open>Strict comparisons\<close>

lemma hr_strict:
  assumes "heart_rate r = Some (Num v)" and "analyze_heart_rate self now r = Inr als"
  shows "(v = get_or (critical_min (get_dict (th_heart_rate (thresholds self)))) 40 \<longrightarrow>
            (\<forall>a \<in> set als. message a \<noteq> ''Critical bradycardia detected'')) \<and>
         (v = get_or (critical_max (get_dict (th_heart_rate (thresholds self)))) 150 \<longrightarrow>
            (\<forall>a \<in> set als. message a \<noteq> ''Critical tachycardia detected'')) \<and>
         (v = get_or (min_t (get_dict (th_heart_rate (thresholds self)))) 60 \<longrightarrow>
            (\<forall>a \<in> set als. message a \<noteq> ''Bradycardia detected'')) \<and>
         (v = get_or (max_t (get_dict (th_heart_rate (thresholds self)))) 100 \<longrightarrow>
            (\<forall>a \<in> set als. message a \<noteq> ''Tachycardia detected''))"
  using assms
  by (auto simp: analyze_heart_rate_def mk_alert_def Let_def split: if_splits)

lemma spo2_strict:
  assumes "spo2 r = Some (Num v)" and "analyze_spo2 self now r = Inr als"
  shows "(v = get_or (critical_min (get_dict (th_spo2 (thresholds self)))) 90 \<longrightarrow>
            (\<forall>a \<in> set als. message a \<noteq> ''Critical hypoxemia detected'')) \<and>
         (v = get_or (min_t (get_dict (th_spo2 (thresholds self)))) 95 \<longrightarrow>
            (\<forall>a \<in> set als. message a \<noteq> ''Low blood oxygen detected''))"
  using assms
  by (auto simp: analyze_spo2_def mk_alert_def Let_def split: if_splits)

lemma temp_strict:
  assumes "temperature r = Some (Num raw)" and "analyze_temperature self now r = Inr als"
    and "v = to_celsius (temperature_unit r) raw"
  shows "(v = get_or (critical_min (get_dict (th_temperature (thresholds self)))) 35.0 \<longrightarrow>
            (\<forall>a \<in> set als. message a \<noteq> ''Critical hypothermia detected'')) \<and>
         (v = get_or (critical_max (get_dict (th_temperature (thresholds self)))) 39.0 \<longrightarrow>
            (\<forall>a \<in> set als. message a \<noteq> ''Critical hyperthermia detected'')) \<and>
         (v = get_or (min_t (get_dict (th_temperature (thresholds self)))) 36.1 \<longrightarrow>
            (\<forall>a \<in> set als. message a \<noteq> ''Low body temperature detected'')) \<and>
         (v = get_or (max_t (get_dict (th_temperature (thresholds self)))) 37.8 \<longrightarrow>
            (\<forall>a \<in> set als. message a \<noteq> ''Fever detected''))"
  using assms
  by (auto simp: analyze_temperature_def mk_alert_def Let_def split: if_splits)

lemma hr_in_range:
  assumes "heart_rate r = Some (Num v)"
    and "ordered (get_dict (th_heart_rate (thresholds self))) 60 100 40 150"
    and "get_or (min_t (get_dict (th_heart_rate (thresholds self)))) 60 \<le> v"
    and "v \<le> get_or (max_t (get_dict (th_heart_rate (thresholds self)))) 100"
  shows "analyze_heart_rate self now r = Inr []"
  using assms by (simp add: analyze_heart_rate_def ordered_def Let_def)

lemma spo2_in_range:
  assumes "spo2 r = Some (Num v)"
    and "get_or (critical_min (get_dict (th_spo2 (thresholds self)))) 90
           \<le> get_or (min_t (get_dict (th_spo2 (thresholds self)))) 95"
    and "get_or (min_t (get_dict (th_spo2 (thresholds self)))) 95 \<le> v"
  shows "analyze_spo2 self now r = Inr []"
  using assms by (simp add: analyze_spo2_def Let_def)

lemma temp_in_range:
  assumes "temperature r = Some (Num raw)"
    and "ordered (get_dict (th_temperature (thresholds self))) 36.1 37.8 35.0 39.0"
    and "get_or (min_t (get_dict (th_temperature (thresholds self)))) 36.1
           \<le> to_celsius (temperature_unit r) raw"
    and "to_celsius (temperature_unit r) raw
           \<le> get_or (max_t (get_dict (th_temperature (thresholds self)))) 37.8"
  shows "analyze_temperature self now r = Inr []"
  using assms by (simp add: analyze_temperature_def ordered_def Let_def)

text \<open>
  C7, as amended. Every comparison is strict: a value equal to a bound never yields the event
  of that bound's branch. A value in the closed interval from \<open>min\<close> to \<open>max\<close> yields no
  threshold event for its vital provided the configured bounds are ordered,
  \<open>critical_min \<le> min\<close> and \<open>max \<le> critical_max\<close> (for SpO2, which has lower bounds only,
  \<open>critical_min \<le> min\<close> and \<open>min \<le> value\<close>).
\<close>

theorem strict_thresholds:
  "(heart_rate r = Some (Num h) \<and> analyze_heart_rate self now r = Inr a1 \<longrightarrow>
      (h = get_or (critical_min (get_dict (th_heart_rate (thresholds self)))) 40 \<longrightarrow>
         (\<forall>a \<in> set a1. message a \<noteq> ''Critical bradycardia detected'')) \<and>
      (h = get_or (critical_max (get_dict (th_heart_rate (thresholds self)))) 150 \<longrightarrow>
         (\<forall>a \<in> set a1. message a \<noteq> ''Critical tachycardia detected'')) \<and>
      (h = get_or (min_t (get_dict (th_heart_rate (thresholds self)))) 60 \<longrightarrow>
         (\<forall>a \<in> set a1. message a \<noteq> ''Bradycardia detected'')) \<and>
      (h = get_or (max_t (get_dict (th_heart_rate (thresholds self)))) 100 \<longrightarrow>
         (\<forall>a \<in> set a1. message a \<noteq> ''Tachycardia detected''))) \<and>
   (spo2 r = Some (Num s) \<and> analyze_spo2 self now r = Inr a2 \<longrightarrow>
      (s = get_or (critical_min (get_dict (th_spo2 (thresholds self)))) 90 \<longrightarrow>
         (\<forall>a \<in> set a2. message a \<noteq> ''Critical hypoxemia detected'')) \<and>
      (s = get_or (min_t (get_dict (th_spo2 (thresholds self)))) 95 \<longrightarrow>
         (\<forall>a \<in> set a2. message a \<noteq> ''Low blood oxygen detected''))) \<and>
   (temperature r = Some (Num raw) \<and> analyze_temperature self now r = Inr a3 \<and>
    t = to_celsius (temperature_unit r) raw \<longrightarrow>
      (t = get_or (critical_min (get_dict (th_temperature (thresholds self)))) 35.0 \<longrightarrow>
         (\<forall>a \<in> set a3. message a \<noteq> ''Critical hypothermia detected'')) \<and>
      (t = get_or (critical_max (get_dict (th_temperature (thresholds self)))) 39.0 \<longrightarrow>
         (\<forall>a \<in> set a3. message a \<noteq> ''Critical hyperthermia detected'')) \<and>
      (t = get_or (min_t (get_dict (th_temperature (thresholds self)))) 36.1 \<longrightarrow>
         (\<forall>a \<in> set a3. message a \<noteq> ''Low body temperature detected'')) \<and>
      (t = get_or (max_t (get_dict (th_temperature (thresholds self)))) 37.8 \<longrightarrow>
         (\<forall>a \<in> set a3. message a \<noteq> ''Fever detected''))) \<and>
   (heart_rate r = Some (Num h) \<and>
    ordered (get_dict (th_heart_rate (thresholds self))) 60 100 40 150 \<and>
    get_or (min_t (get_dict (th_heart_rate (thresholds self)))) 60 \<le> h \<and>
    h \<le> get_or (max_t (get_dict (th_heart_rate (thresholds self)))) 100 \<longrightarrow>
      analyze_heart_rate self now r = Inr []) \<and>
   (spo2 r = Some (Num s) \<and>
    get_or (critical_min (get_dict (th_spo2 (thresholds self)))) 90
      \<le> get_or (min_t (get_dict (th_spo2 (thresholds self)))) 95 \<and>
    get_or (min_t (get_dict (th_spo2 (thresholds self)))) 95 \<le> s \<longrightarrow>
      analyze_spo2 self now r = Inr []) \<and>
   (temperature r = Some (Num raw) \<and>
    ordered (get_dict (th_temperature (thresholds self))) 36.1 37.8 35.0 39.0 \<and>
    get_or (min_t (get_dict (th_temperature (thresholds self)))) 36.1
      \<le> to_celsius (temperature_unit r) raw \<and>
    to_celsius (temperature_unit r) raw
      \<le> get_or (max_t (get_dict (th_temperature (thresholds self)))) 37.8 \<longrightarrow>
      analyze_temperature self now r = Inr [])"
proof (intro conjI)
  show "heart_rate r = Some (Num h) \<and> analyze_heart_rate self now r = Inr a1 \<longrightarrow>
        (h = get_or (critical_min (get_dict (th_heart_rate (thresholds self)))) 40 \<longrightarrow>
           (\<forall>a \<in> set a1. message a \<noteq> ''Critical bradycardia detected'')) \<and>
        (h = get_or (critical_max (get_dict (th_heart_rate (thresholds self)))) 150 \<longrightarrow>
           (\<forall>a \<in> set a1. message a \<noteq> ''Critical tachycardia detected'')) \<and>
        (h = get_or (min_t (get_dict (th_heart_rate (thresholds self)))) 60 \<longrightarrow>
           (\<forall>a \<in> set a1. message a \<noteq> ''Bradycardia detected'')) \<and>
        (h = get_or (max_t (get_dict (th_heart_rate (thresholds self)))) 100 \<longrightarrow>
           (\<forall>a \<in> set a1. message a \<noteq> ''Tachycardia detected''))"
    using hr_strict [of r h self now a1]
    by blast
next
  show "spo2 r = Some (Num s) \<and> analyze_spo2 self now r = Inr a2 \<longrightarrow>
        (s = get_or (critical_min (get_dict (th_spo2 (thresholds self)))) 90 \<longrightarrow>
           (\<forall>a \<in> set a2. message a \<noteq> ''Critical hypoxemia detected'')) \<and>
        (s = get_or (min_t (get_dict (th_spo2 (thresholds self)))) 95 \<longrightarrow>
           (\<forall>a \<in> set a2. message a \<noteq> ''Low blood oxygen detected''))"
    using spo2_strict [of r s self now a2]
    by blast
next
  show "temperature r = Some (Num raw) \<and> analyze_temperature self now r = Inr a3 \<and>
      t = to_celsius (temperature_unit r) raw \<longrightarrow>
        (t = get_or (critical_min (get_dict (th_temperature (thresholds self)))) 35.0 \<longrightarrow>
           (\<forall>a \<in> set a3. message a \<noteq> ''Critical hypothermia detected'')) \<and>
        (t = get_or (critical_max (get_dict (th_temperature (thresholds self)))) 39.0 \<longrightarrow>
           (\<forall>a \<in> set a3. message a \<noteq> ''Critical hyperthermia detected'')) \<and>
        (t = get_or (min_t (get_dict (th_temperature (thresholds self)))) 36.1 \<longrightarrow>
           (\<forall>a \<in> set a3. message a \<noteq> ''Low body temperature detected'')) \<and>
        (t = get_or (max_t (get_dict (th_temperature (thresholds self)))) 37.8 \<longrightarrow>
           (\<forall>a \<in> set a3. message a \<noteq> ''Fever detected''))"
    using temp_strict [of r raw self now a3 t]
    by blast
next
  show "heart_rate r = Some (Num h) \<and>
      ordered (get_dict (th_heart_rate (thresholds self))) 60 100 40 150 \<and>
      get_or (min_t (get_dict (th_heart_rate (thresholds self)))) 60 \<le> h \<and>
      h \<le> get_or (max_t (get_dict (th_heart_rate (thresholds self)))) 100 \<longrightarrow>
        analyze_heart_rate self now r = Inr []"
    using hr_in_range [of r h self now]
    by blast
next
  show "spo2 r = Some (Num s) \<and>
      get_or (critical_min (get_dict (th_spo2 (thresholds self)))) 90
        \<le> get_or (min_t (get_dict (th_spo2 (thresholds self)))) 95 \<and>
      get_or (min_t (get_dict (th_spo2 (thresholds self)))) 95 \<le> s \<longrightarrow>
        analyze_spo2 self now r = Inr []"
    using spo2_in_range [of r s self now]
    by blast
next
  show "temperature r = Some (Num raw) \<and>
      ordered (get_dict (th_temperature (thresholds self))) 36.1 37.8 35.0 39.0 \<and>
      get_or (min_t (get_dict (th_temperature (thresholds self)))) 36.1
        \<le> to_celsius (temperature_unit r) raw \<and>
      to_celsius (temperature_unit r) raw
        \<le> get_or (max_t (get_dict (th_temperature (thresholds self)))) 37.8 \<longrightarrow>
        analyze_temperature self now r = Inr []"
    using temp_in_range [of r raw self now]
    by blast
qed

theorem strict_thresholds_witness:
  "analyze_heart_rate (init_analyzer default_thresholds) 0
     (no_readings\<lparr>heart_rate := Some (Num 60), spo2 := Some (Num 95),
                   temperature := Some (Num 37.8)\<rparr>) = Inr [] \<and>
   analyze_spo2 (init_analyzer default_thresholds) 0
     (no_readings\<lparr>heart_rate := Some (Num 60), spo2 := Some (Num 95),
                   temperature := Some (Num 37.8)\<rparr>) = Inr [] \<and>
   analyze_temperature (init_analyzer default_thresholds) 0
     (no_readings\<lparr>heart_rate := Some (Num 60), spo2 := Some (Num 95),
                   temperature := Some (Num 37.8)\<rparr>) = Inr []"
  using strict_thresholds
    [of "no_readings\<lparr>heart_rate := Some (Num 60), spo2 := Some (Num 95),
                       temperature := Some (Num 37.8)\<rparr>"
        60 "init_analyzer default_thresholds" 0 "[]" 95 "[]" "37.8" "[]" "37.8"]
  by (simp add: ordered_def init_analyzer_def default_thresholds_def no_readings_def
        get_dict_def get_or_def to_celsius_def)

text \<open>
  C7 as stated fails for a configuration with \<open>critical_min\<close> above \<open>min\<close>: a heart rate of
  65 lies in the interval from 60 to 100 and is still classified, by the critical_min branch
  that is checked first.
\<close>

theorem in_range_counterexample:
  "(60::real) \<le> 65 \<and> (65::real) \<le> 100 \<and>
   analyze_heart_rate (init_analyzer misordered_thresholds) 0
     (no_readings\<lparr>heart_rate := Some (Num 65)\<rparr>) =
     Inr [mk_alert HeartRate Critical ''Critical bradycardia detected'' (Some 65) (Some 70) 0]"
  by (simp add: analyze_heart_rate_def init_analyzer_def misordered_thresholds_def
        no_readings_def get_dict_def get_or_def)

section \<open>The temperature window holds raw values\<close>

















section \<open>Dispatch routing\<close>

lemma attempts_by_severity:
  "attempts (send_alert self env a) =
     (case a_severity a of Critical \<Rightarrow> [Email, Sms, Local]
      | Warning \<Rightarrow> [Email, Local] | Info \<Rightarrow> [Local])"
  by (cases "a_severity a") (simp_all add: send_alert_def Let_def)

lemma results_by_channel:
  "results (send_alert self env a) c \<longleftrightarrow>
     c \<in> spec_channels (a_severity a) \<and> channel_send c self env a"
  by (cases "a_severity a"; cases c) (simp_all add: send_alert_def Let_def)

text \<open>
  C6. \<open>send_alert\<close> calls \<open>send\<close> on exactly email, sms and local for a critical alert, on
  exactly email and local for a warning, on exactly local for an info alert, each once. The
  channels called do not depend on what any transport does, and the returned mapping gives
  for every channel whether it was called and its \<open>send\<close> returned true, so each channel's
  outcome depends on its own transport only.
\<close>

theorem dispatch_routing:
  "set (attempts (send_alert self env a)) = spec_channels (a_severity a) \<and>
   distinct (attempts (send_alert self env a)) \<and>
   attempts (send_alert self env' a) = attempts (send_alert self env a) \<and>
   (\<forall>c. results (send_alert self env a) c \<longleftrightarrow>
        c \<in> spec_channels (a_severity a) \<and> channel_send c self env a)"
  by (cases "a_severity a") (simp_all add: attempts_by_severity results_by_channel)

theorem dispatch_routing_witness:
  "attempts (send_alert armed smtp_down (hr_critical 0)) = [Email, Sms, Local] \<and>
   \<not> results (send_alert armed smtp_down (hr_critical 0)) Email \<and>
   results (send_alert armed smtp_down (hr_critical 0)) Sms \<and>
   results (send_alert armed smtp_down (hr_critical 0)) Local \<and>
   attempts (send_alert armed smtp_down (hr_warning 0)) = [Email, Local] \<and>
   \<not> results (send_alert armed smtp_down (hr_warning 0)) Sms"
  using dispatch_routing [of armed smtp_down "hr_critical 0" quiet]
    dispatch_routing [of armed smtp_down "hr_warning 0" quiet]
    attempts_by_severity [of armed smtp_down "hr_critical 0"]
    attempts_by_severity [of armed smtp_down "hr_warning 0"]
  by (simp add: armed_def smtp_down_def quiet_def hr_critical_def hr_warning_def mk_alert_def
        init_manager_def email_send_def sms_send_def local_send_def local_body_def bind_def)

section \<open>Failures stay inside the call\<close>

lemma sends_fail:
  "(smtp env a = Inl e1 \<longrightarrow> \<not> email_send self env a) \<and>
   (twilio env a = Inl e2 \<longrightarrow> \<not> sms_send self env a) \<and>
   (local_body self env a = Inl e3 \<longrightarrow> \<not> local_send self env a)"
  by (simp add: email_send_def sms_send_def local_send_def)

lemma analyze_catches:
  "analyze_body (update_history self r) now r = Inl e \<Longrightarrow>
   analyze self now r = ([], update_history self r)"
  by (simp add: analyze_def Let_def)

lemma analyze_passes:
  "analyze_body (update_history self r) now r = Inr res \<Longrightarrow> analyze self now r = res"
  by (simp add: analyze_def Let_def)

text \<open>
  C8. If anything in the body of \<open>analyze\<close> raises, \<open>analyze\<close> returns the empty list (the
  history appended before the failure stays). \<open>send_alert\<close> returns its mapping whatever the
  transports do: a channel whose transport raises, and more generally every channel whose
  \<open>send\<close> fails, is reported as false.
\<close>

theorem failures_are_contained:
  "(analyze_body (update_history self r) now r = Inl e \<longrightarrow>
      analyze self now r = ([], update_history self r)) \<and>
   (smtp env a = Inl e1 \<longrightarrow> \<not> results (send_alert mgr env a) Email) \<and>
   (twilio env a = Inl e2 \<longrightarrow> \<not> results (send_alert mgr env a) Sms) \<and>
   (local_body mgr env a = Inl e3 \<longrightarrow> \<not> results (send_alert mgr env a) Local) \<and>
   (\<forall>c. \<not> channel_send c mgr env a \<longrightarrow> \<not> results (send_alert mgr env a) c)"
  using analyze_catches [of self r now e] sends_fail [of env a e1 mgr e2 e3]
  by (simp add: results_by_channel)

theorem failures_are_contained_witness:
  "analyze (init_analyzer default_thresholds) 0 (no_readings\<lparr>heart_rate := Some NonNum\<rparr>) =
     ([], (init_analyzer default_thresholds)\<lparr>heart_rate_history := [NonNum]\<rparr>) \<and>
   \<not> results (send_alert armed all_down (hr_critical 0)) Email \<and>
   \<not> results (send_alert armed all_down (hr_critical 0)) Sms \<and>
   \<not> results (send_alert armed all_down (hr_critical 0)) Local"
  using failures_are_contained
    [of "init_analyzer default_thresholds" "no_readings\<lparr>heart_rate := Some NonNum\<rparr>" 0
        TypeError all_down "hr_critical 0" TransportError armed TransportError TransportError]
  by (simp add: analyze_body_def analyze_heart_rate_def bind_def update_history_def
        no_readings_def init_analyzer_def deque_append_def maxlen_def all_down_def armed_def
        init_manager_def local_body_def hr_critical_def mk_alert_def Let_def)

section \<open>Alert history\<close>

lemma drop1_tl: "drop (Suc 0) xs = tl xs"
  by (cases xs) simp_all

lemma pop0_last_n:
  assumes "length h \<le> n"
  shows "(if length (h @ [a]) > n then tl (h @ [a]) else h @ [a]) = last_n n (h @ [a])"
proof (cases "length h < n")
  case True
  then show ?thesis by (simp add: last_n_def)
next
  case False
  with assms have n: "length h = n"
    by simp
  then have e: "length (h @ [a]) - n = Suc 0"
    by simp
  have "last_n n (h @ [a]) = drop (Suc 0) (h @ [a])"
    unfolding last_n_def e ..
  also have "\<dots> = tl (h @ [a])"
    by (rule drop1_tl)
  finally show ?thesis
    using n by simp
qed

lemma add_history_last_n:
  assumes "length (alert_history self) \<le> max_history self"
  shows "alert_history (add_history self a) =
     last_n (max_history self) (alert_history self @ [a])"
  using pop0_last_n [OF assms, of a] by (simp add: add_history_def Let_def)

lemma add_history_max: "max_history (add_history self a) = max_history self"
  by (simp add: add_history_def Let_def)

lemma send_alert_manager: "manager (send_alert self env a) = add_history self a"
  by (simp add: send_alert_def Let_def)

lemma last_n_length: "length (last_n n xs) \<le> n"
  by (simp add: last_n_def)

lemma last_n_last_n: "last_n n (last_n n xs @ ys) = last_n n (xs @ ys)"
proof -
  have "length xs + length ys - (length xs - n + n) + (length xs - n) =
      length xs + length ys - n"
    by arith
  then show ?thesis by (simp add: last_n_def)
qed

lemma send_alerts_history:
  "length (alert_history self) \<le> max_history self \<Longrightarrow>
   alert_history (send_alerts self calls) =
     last_n (max_history self) (alert_history self @ map snd calls) \<and>
   max_history (send_alerts self calls) = max_history self"
proof (induction calls arbitrary: self)
  case Nil
  then show ?case by (simp add: last_n_def)
next
  case (Cons c calls)
  obtain env a where c: "c = (env, a)" by (cases c)
  let ?s = "add_history self a"
  have h: "alert_history ?s = last_n (max_history self) (alert_history self @ [a])"
    using Cons.prems by (rule add_history_last_n)
  then have "length (alert_history ?s) \<le> max_history ?s"
    by (simp add: last_n_length add_history_max)
  from Cons.IH [OF this] show ?case
    by (simp add: c send_alert_manager h add_history_max last_n_last_n)
qed

text \<open>
  C9. After any sequence of \<open>send_alert\<close> calls on a fresh manager the history is the last
  1000 of the dispatched alerts, in dispatch order, each dispatched alert entering once; so
  it never holds more than 1000 and the oldest leave first.
\<close>

theorem alert_history_bounded:
  "alert_history (send_alerts (init_manager e s i l b) calls) = last_n 1000 (map snd calls) \<and>
   length (alert_history (send_alerts (init_manager e s i l b) calls)) \<le> 1000"
  using send_alerts_history [of "init_manager e s i l b" calls]
  by (simp add: init_manager_def last_n_length)

theorem alert_history_bounded_witness:
  "alert_history (send_alerts armed
     (replicate 1000 (quiet, hr_warning 0) @ [(quiet, hr_critical 1)])) =
     replicate 999 (hr_warning 0) @ [hr_critical 1]"
  using alert_history_bounded
    [of True True True True True "replicate 1000 (quiet, hr_warning 0) @ [(quiet, hr_critical 1)]"]
  by (simp add: armed_def last_n_def)

section \<open>Escalation of consecutive failures\<close>

lemma tick_raised:
  "read_all env = Inl e \<Longrightarrow>
   tick self env = (self\<lparr>consecutive_errors := consecutive_errors self + 1\<rparr>, [])"
  by (simp add: tick_def)

lemma tick_failed_below:
  "read_all env = Inr None \<Longrightarrow> consecutive_errors self + 1 < 5 \<Longrightarrow>
   tick self env = (self\<lparr>consecutive_errors := consecutive_errors self + 1\<rparr>, [])"
  by (simp add: tick_def max_consecutive_errors_def Let_def)

lemma tick_failed_escalates:
  "read_all env = Inr None \<Longrightarrow> consecutive_errors self + 1 \<ge> 5 \<Longrightarrow>
   tick self env =
     (self\<lparr>alert_manager :=
              manager (send_alert (alert_manager self) (world env) (error_alert (clock env))),
           consecutive_errors := 0\<rparr>,
      [error_alert (clock env)])"
  by (simp add: tick_def max_consecutive_errors_def Let_def)

lemma run_raised:
  "\<forall>env \<in> set envs. \<exists>e. read_all env = Inl e \<Longrightarrow>
   run self envs = (self\<lparr>consecutive_errors := consecutive_errors self + length envs\<rparr>, [])"
proof (induction envs arbitrary: self)
  case Nil
  then show ?case by simp
next
  case (Cons env envs)
  then obtain e where "read_all env = Inl e"
    by auto
  then have "tick self env = (self\<lparr>consecutive_errors := consecutive_errors self + 1\<rparr>, [])"
    by (rule tick_raised)
  moreover have "run (self\<lparr>consecutive_errors := consecutive_errors self + 1\<rparr>) envs =
      (self\<lparr>consecutive_errors := consecutive_errors self + 1 + length envs\<rparr>, [])"
    using Cons.IH [of "self\<lparr>consecutive_errors := consecutive_errors self + 1\<rparr>"] Cons.prems
    by simp
  ultimately show ?case by simp
qed

lemma run_step: "run self (env # envs) =
    (fst (run (fst (tick self env)) envs), snd (tick self env) @ snd (run (fst (tick self env)) envs))"
  by (simp split: prod.splits)

lemma error_alert_fields:
  "a_type (error_alert now) = SystemError \<and> a_severity (error_alert now) = Critical"
  by (simp add: error_alert_def mk_alert_def)

lemma run_failed:
  "\<forall>env \<in> set envs. read_all env = Inr None \<Longrightarrow> consecutive_errors self < 5 \<Longrightarrow>
   consecutive_errors (fst (run self envs)) = (consecutive_errors self + length envs) mod 5 \<and>
   length (snd (run self envs)) = (consecutive_errors self + length envs) div 5 \<and>
   (\<forall>a \<in> set (snd (run self envs)). a_type a = SystemError \<and> a_severity a = Critical)"
proof (induction envs arbitrary: self)
  case Nil
  then show ?case by simp
next
  case (Cons env envs)
  then have r: "read_all env = Inr None" and rest: "\<forall>env \<in> set envs. read_all env = Inr None"
    by simp_all
  show ?case
  proof (cases "consecutive_errors self + 1 < 5")
    case True
    let ?s = "self\<lparr>consecutive_errors := consecutive_errors self + 1\<rparr>"
    have t: "tick self env = (?s, [])"
      using r True by (rule tick_failed_below)
    have "consecutive_errors ?s < 5" using True by simp
    from Cons.IH [OF rest this] show ?thesis
      unfolding run_step t by simp
  next
    case False
    with Cons.prems have c: "consecutive_errors self = 4"
      by simp
    let ?s = "self\<lparr>alert_manager :=
              manager (send_alert (alert_manager self) (world env) (error_alert (clock env))),
           consecutive_errors := 0\<rparr>"
    have t: "tick self env = (?s, [error_alert (clock env)])"
      using r False by (intro tick_failed_escalates) simp_all
    have z: "consecutive_errors ?s = 0" by simp
    then have "consecutive_errors ?s < 5" by simp
    from Cons.IH [OF rest this]
    have ih: "consecutive_errors (fst (run ?s envs)) = length envs mod 5"
      "length (snd (run ?s envs)) = length envs div 5"
      "\<forall>a \<in> set (snd (run ?s envs)). a_type a = SystemError \<and> a_severity a = Critical"
      unfolding z by simp_all
    have m: "(4 + Suc (length envs)) mod 5 = length envs mod 5"
      and d: "(4 + Suc (length envs)) div 5 = Suc (length envs div 5)"
      by presburger+
    show ?thesis
      unfolding run_step t using ih m d by (simp add: c error_alert_fields)
  qed
qed

text \<open>
  C4. On the acquisition-failure branch the counter is incremented, and when it reaches 5 one
  critical system_error alert is dispatched and the counter is reset (\<open>run_failed\<close> above).
  The \<open>except\<close> branch increments the same counter without that check: five ticks whose read
  raises leave the counter at 5 with nothing dispatched, where five ticks whose read returns
  nothing dispatch the system_error alert and reset the counter.
\<close>

theorem exception_ticks_do_not_escalate:
  "consecutive_errors (fst (run monitor0 [raising, raising, raising, raising, raising])) = 5 \<and>
   snd (run monitor0 [raising, raising, raising, raising, raising]) = [] \<and>
   consecutive_errors (fst (run monitor0 [failing, failing, failing, failing, failing])) = 0 \<and>
   snd (run monitor0 [failing, failing, failing, failing, failing]) = [error_alert 0]"
  by (simp add: tick_def monitor0_def raising_def failing_def max_consecutive_errors_def Let_def)

end
